theory Spec2Isabelle
  imports Complex_Main "HOL-Library.Sublist"
begin

section \<open>Data model of update.py\<close>

text \<open>
  A scraped course is the dictionary built in \<open>scrape_platform\<close> (keys \<open>title\<close>,
  \<open>image_url\<close>, \<open>course_link\<close>, \<open>platform\<close>). A search result is the same dictionary
  with a \<open>score\<close>. The pandas DataFrame holding the corpus is the list of its rows;
  \<open>pd.DataFrame()\<close> and a frame built from no rows are the empty list (\<open>df.empty\<close>).
  Python floats (similarity scores, \<open>time.time()\<close>) are modelled as reals.
\<close>

record course =
  title :: string
  image_url :: string
  course_link :: string
  platform :: string

record ranked = course +
  score :: real

datatype py_error = RuntimeError | IndexError | WebDriverException | OtherError

section \<open>Aggregation: get_all_courses\<close>

text \<open>The globals \<open>cached_courses\<close> (None or a frame) and \<open>last_cache_time\<close>.\<close>

record cache =
  cached_courses :: "course list option"
  last_cache_time :: real

definition CACHE_DURATION :: real where
  "CACHE_DURATION = 3600"

definition platform_scrapers :: "string list" where
  "platform_scrapers =
     [''scrape_coursera'', ''scrape_udemy'', ''scrape_analyticsvidhya'', ''scrape_edx'',
      ''scrape_khanacademy'', ''scrape_mitocw'', ''scrape_freecodecamp'', ''scrape_harvard'']"

text \<open>
  What the outside world does during one call: what each platform scraper returns (or
  the exception it raises), and whether the construction of the DataFrame from the merged
  rows raises. The first is the only statement of the try block that can raise outside the
  per-scraper handler before the cache is assigned.
\<close>

record world =
  scraper_outcome :: "string \<Rightarrow> py_error + course list"
  frame_fault :: "py_error option"

text \<open>
  Lines 353-361: every scraper is called, in order; a non-empty result extends
  \<open>all_courses\<close>; an exception is logged and the loop continues. The second component
  records the scrapers invoked.
\<close>

fun run_scrapers ::
  "(string \<Rightarrow> py_error + course list) \<Rightarrow> string list \<Rightarrow> course list \<Rightarrow> string list
     \<Rightarrow> course list \<times> string list" where
  "run_scrapers out [] all_courses invoked = (all_courses, invoked)"
| "run_scrapers out (s # ss) all_courses invoked =
     (case out s of
        Inl e \<Rightarrow> run_scrapers out ss all_courses (invoked @ [s])
      | Inr courses \<Rightarrow>
          (if courses \<noteq> [] then run_scrapers out ss (all_courses @ courses) (invoked @ [s])
           else run_scrapers out ss all_courses (invoked @ [s])))"

text \<open>
  Lines 364-369: the loop over \<open>all_courses\<close> with the list \<open>unique_courses\<close> and the
  set \<open>seen_titles\<close>. A row whose title is the empty string is falsy and skipped.
\<close>

fun dedup_loop :: "course list \<Rightarrow> course list \<Rightarrow> string set \<Rightarrow> course list" where
  "dedup_loop [] unique_courses seen_titles = unique_courses"
| "dedup_loop (c # cs) unique_courses seen_titles =
     (if title c \<noteq> [] \<and> title c \<notin> seen_titles
      then dedup_loop cs (unique_courses @ [c]) (insert (title c) seen_titles)
      else dedup_loop cs unique_courses seen_titles)"

definition remove_duplicates :: "course list \<Rightarrow> course list" where
  "remove_duplicates all_courses = dedup_loop all_courses [] {}"

definition pd_DataFrame :: "world \<Rightarrow> course list \<Rightarrow> py_error + course list" where
  "pd_DataFrame w rows = (case frame_fault w of Some e \<Rightarrow> Inl e | None \<Rightarrow> Inr rows)"

text \<open>
  Lines 337-383, the rebuild: the try block and its handler. The result is the value
  returned, the globals afterwards and the scrapers invoked.
\<close>

definition rebuild :: "world \<Rightarrow> real \<Rightarrow> cache \<Rightarrow> course list \<times> cache \<times> string list" where
  "rebuild w current_time st =
     (case run_scrapers (scraper_outcome w) platform_scrapers [] [] of
        (all_courses, invoked) \<Rightarrow>
          (case pd_DataFrame w (remove_duplicates all_courses) of
             Inr df \<Rightarrow>
               (df, \<lparr>cached_courses = Some df, last_cache_time = current_time\<rparr>, invoked)
           | Inl e \<Rightarrow>
               (case cached_courses st of
                  Some old \<Rightarrow> (old, st, invoked)
                | None \<Rightarrow> ([], st, invoked))))"

definition get_all_courses :: "world \<Rightarrow> real \<Rightarrow> cache \<Rightarrow> course list \<times> cache \<times> string list" where
  "get_all_courses w current_time st =
     (case cached_courses st of
        Some df \<Rightarrow>
          (if current_time - last_cache_time st < CACHE_DURATION then (df, st, [])
           else rebuild w current_time st)
      | None \<Rightarrow> rebuild w current_time st)"

section \<open>Semantic search: search_courses\<close>

text \<open>
  The sentence-transformer is abstracted by the similarity it induces: for a model
  \<open>m\<close>, \<open>m query t\<close> is the cosine similarity of the embeddings of \<open>query\<close> and of
  the title \<open>t\<close>. The global \<open>model\<close> is None when its initialisation failed.
\<close>

type_synonym embedder = "string \<Rightarrow> string \<Rightarrow> real"

text \<open>
  \<open>similarities.topk(k)\<close> on a one-dimensional tensor: a RuntimeError when \<open>k\<close> exceeds
  the number of elements, otherwise the indices of the \<open>k\<close> largest values in descending
  order of value. Torch does not fix the order among equal values, so the indices it
  returns when \<open>k\<close> is in range are a parameter \<open>pick\<close> of the model; the properties of
  the search are proved for every \<open>pick\<close>.
\<close>

type_synonym torch_order = "real list \<Rightarrow> nat \<Rightarrow> nat list"

definition topk :: "torch_order \<Rightarrow> real list \<Rightarrow> nat \<Rightarrow> py_error + nat list" where
  "topk pick xs k = (if length xs < k then Inl RuntimeError else Inr (pick xs k))"

definition make_result :: "course \<Rightarrow> real \<Rightarrow> ranked" where
  "make_result c s =
     \<lparr>title = title c, image_url = image_url c, course_link = course_link c,
      platform = platform c, score = s\<rparr>"

text \<open>
  Lines 407-423: the loop over the indices with \<open>results\<close> and \<open>seen_courses\<close>. An index
  outside the frame makes \<open>df.iloc\<close> raise; the inner handler logs and continues.
\<close>

fun collect_results ::
  "course list \<Rightarrow> real list \<Rightarrow> nat list \<Rightarrow> ranked list \<Rightarrow> string set \<Rightarrow> ranked list" where
  "collect_results df sims [] results seen_courses = results"
| "collect_results df sims (idx # rest) results seen_courses =
     (if length df \<le> idx then collect_results df sims rest results seen_courses
      else if title (df ! idx) \<notin> seen_courses then
        (if 8 \<le> length (results @ [make_result (df ! idx) (sims ! idx)])
         then results @ [make_result (df ! idx) (sims ! idx)]
         else collect_results df sims rest
                (results @ [make_result (df ! idx) (sims ! idx)])
                (insert (title (df ! idx)) seen_courses))
      else collect_results df sims rest results seen_courses)"

text \<open>
  \<open>sorted(results, key=lambda x: x['score'], reverse=True)\<close>: a stable sort, descending;
  rows of equal score keep their order.
\<close>

definition sorted_by_score_desc :: "ranked list \<Rightarrow> ranked list" where
  "sorted_by_score_desc results = rev (sort_key score (rev results))"

text \<open>
  The body of the outer try block. The second component counts the calls of
  \<open>model.encode\<close> made.
\<close>

definition search_try ::
  "torch_order \<Rightarrow> embedder option \<Rightarrow> string \<Rightarrow> course list
     \<Rightarrow> (py_error + ranked list) \<times> nat" where
  "search_try pick model query df =
     (if df = [] then (Inr [], 0)
      else case model of
        None \<Rightarrow> (Inr [], 0)
      | Some m \<Rightarrow>
          (case topk pick (map (m query) (map title df)) 30 of
             Inl e \<Rightarrow> (Inl e, 2)
           | Inr indices \<Rightarrow>
               (Inr (sorted_by_score_desc
                       (collect_results df (map (m query) (map title df)) indices [] {})), 2)))"

text \<open>The outer handler turns every exception into the empty list.\<close>

definition search_courses_run ::
  "torch_order \<Rightarrow> embedder option \<Rightarrow> string \<Rightarrow> course list \<Rightarrow> ranked list \<times> nat" where
  "search_courses_run pick model query df =
     (case search_try pick model query df of
        (Inl e, calls) \<Rightarrow> ([], calls)
      | (Inr results, calls) \<Rightarrow> (results, calls))"

definition search_courses ::
  "torch_order \<Rightarrow> embedder option \<Rightarrow> string \<Rightarrow> course list \<Rightarrow> ranked list" where
  "search_courses pick model query df = fst (search_courses_run pick model query df)"

definition encode_calls :: "torch_order \<Rightarrow> embedder option \<Rightarrow> string \<Rightarrow> course list \<Rightarrow> nat" where
  "encode_calls pick model query df = snd (search_courses_run pick model query df)"

section \<open>Page scrolling: scroll_to_bottom\<close>

text \<open>
  The browser is abstracted by what \<open>document.body.scrollHeight\<close> answers: \<open>h 0\<close> is the
  first reading (line 70), \<open>h (Suc n)\<close> the reading after the scroll number \<open>n + 1\<close>;
  None is a call of the driver that raises, which the handler of the function logs.
  The result is the number of scrolls made when the function returns, and None when it
  never returns.
\<close>

partial_function (option) scroll_loop ::
  "(nat \<Rightarrow> int option) \<Rightarrow> nat \<Rightarrow> int \<Rightarrow> nat \<Rightarrow> nat option" where
  "scroll_loop h n last_height retry_count =
     (if retry_count < 10 then
        (case h (Suc n) of
           None \<Rightarrow> Some (Suc n)
         | Some new_height \<Rightarrow>
             (if 3 \<le> (if new_height = last_height then retry_count + 1 else 0)
              then Some (Suc n)
              else scroll_loop h (Suc n) new_height
                     (if new_height = last_height then retry_count + 1 else 0)))
      else Some n)"

declare scroll_loop.simps [code]

definition scroll_to_bottom :: "(nat \<Rightarrow> int option) \<Rightarrow> nat option" where
  "scroll_to_bottom h =
     (case h 0 of None \<Rightarrow> Some 0 | Some last_height \<Rightarrow> scroll_loop h 0 last_height 0)"

section \<open>Card extraction: scrape_platform\<close>

subsection \<open>Strings\<close>

text \<open>
  The string methods the scraper uses: \<open>s.lower()\<close>, \<open>s.strip()\<close>, \<open>sub in s\<close>,
  \<open>s.startswith(p)\<close> and \<open>' '.join(xs)\<close>. A character is a code point below 256
  (Latin-1); on these the methods are Python's. The capital letters are A to Z and
  U+00C0 to U+00DE without the multiplication sign U+00D7; the characters that
  \<open>strip\<close> removes are those of \<open>str.isspace\<close>: U+0009 to U+000D, U+001C to U+0020,
  U+0085 and U+00A0.
\<close>

definition latin1_upper :: string where
  "latin1_upper =
     [CHR 0xC0, CHR 0xC1, CHR 0xC2, CHR 0xC3, CHR 0xC4, CHR 0xC5, CHR 0xC6, CHR 0xC7,
      CHR 0xC8, CHR 0xC9, CHR 0xCA, CHR 0xCB, CHR 0xCC, CHR 0xCD, CHR 0xCE, CHR 0xCF,
      CHR 0xD0, CHR 0xD1, CHR 0xD2, CHR 0xD3, CHR 0xD4, CHR 0xD5, CHR 0xD6, CHR 0xD8,
      CHR 0xD9, CHR 0xDA, CHR 0xDB, CHR 0xDC, CHR 0xDD, CHR 0xDE]"

definition latin1_lower :: string where
  "latin1_lower =
     [CHR 0xE0, CHR 0xE1, CHR 0xE2, CHR 0xE3, CHR 0xE4, CHR 0xE5, CHR 0xE6, CHR 0xE7,
      CHR 0xE8, CHR 0xE9, CHR 0xEA, CHR 0xEB, CHR 0xEC, CHR 0xED, CHR 0xEE, CHR 0xEF,
      CHR 0xF0, CHR 0xF1, CHR 0xF2, CHR 0xF3, CHR 0xF4, CHR 0xF5, CHR 0xF6, CHR 0xF8,
      CHR 0xF9, CHR 0xFA, CHR 0xFB, CHR 0xFC, CHR 0xFD, CHR 0xFE]"

definition lower_char :: "char \<Rightarrow> char" where
  "lower_char c =
     (case map_of (zip (''ABCDEFGHIJKLMNOPQRSTUVWXYZ'' @ latin1_upper)
                       (''abcdefghijklmnopqrstuvwxyz'' @ latin1_lower)) c of
        Some d \<Rightarrow> d
      | None \<Rightarrow> c)"

definition lower :: "string \<Rightarrow> string" where
  "lower s = map lower_char s"

definition is_space :: "char \<Rightarrow> bool" where
  "is_space c =
     (c \<in> set [CHR '' '', CHR 0x09, CHR 0x0A, CHR 0x0B, CHR 0x0C, CHR 0x0D,
                CHR 0x1C, CHR 0x1D, CHR 0x1E, CHR 0x1F, CHR 0x85, CHR 0xA0])"

definition strip :: "string \<Rightarrow> string" where
  "strip s = rev (dropWhile is_space (rev (dropWhile is_space s)))"

fun contains :: "string \<Rightarrow> string \<Rightarrow> bool" where
  "contains sub [] = (sub = [])"
| "contains sub (c # cs) = (prefix sub (c # cs) \<or> contains sub cs)"

definition startswith :: "string \<Rightarrow> string \<Rightarrow> bool" where
  "startswith s p = prefix p s"

fun join_space :: "string list \<Rightarrow> string" where
  "join_space [] = []"
| "join_space [x] = x"
| "join_space (x # y # ys) = x @ '' '' @ join_space (y # ys)"

subsection \<open>The parsed document\<close>

text \<open>
  A node of the BeautifulSoup tree is a string or a tag with its name, the value of its
  \<open>class\<close> attribute (the list of class tokens, None when the attribute is absent), its
  other attributes and its children. The document itself is the root tag. Comments and
  other special strings are left out.
\<close>

datatype node =
  Text string
| Element string "string list option" "(string \<times> string) list" "node list"

fun descendants :: "node \<Rightarrow> node list" where
  "descendants (Text s) = []"
| "descendants (Element name cls attrs kids) = concat (map (\<lambda>k. k # descendants k) kids)"

text \<open>Each descendant in document order, with its ancestors from its parent upwards.\<close>

fun descendants_ctx :: "node list \<Rightarrow> node \<Rightarrow> (node \<times> node list) list" where
  "descendants_ctx anc (Text s) = []"
| "descendants_ctx anc (Element name cls attrs kids) =
     concat (map (\<lambda>k. (k, Element name cls attrs kids # anc)
                        # descendants_ctx (Element name cls attrs kids # anc) k) kids)"

fun get_text :: "node \<Rightarrow> string" where
  "get_text (Text s) = s"
| "get_text (Element name cls attrs kids) = concat (map get_text kids)"

text \<open>\<open>node.find(...)\<close>: the first descendant, in document order, that matches.\<close>

definition find_node :: "(node \<Rightarrow> bool) \<Rightarrow> node \<Rightarrow> node option" where
  "find_node p n = find p (descendants n)"

text \<open>
  A \<open>class_\<close> filter given as a function: BeautifulSoup calls it on None when the tag has
  no class attribute (all the filters of the source answer a falsy value there), and
  otherwise on each class token and then on the tokens joined by spaces.
\<close>

definition class_matches :: "(string \<Rightarrow> bool) \<Rightarrow> node \<Rightarrow> bool" where
  "class_matches f n =
     (case n of
        Text s \<Rightarrow> False
      | Element name cls attrs kids \<Rightarrow>
          (case cls of None \<Rightarrow> False | Some toks \<Rightarrow> list_ex f toks \<or> f (join_space toks)))"

definition has_name :: "string list \<Rightarrow> node \<Rightarrow> bool" where
  "has_name names n =
     (case n of Text s \<Rightarrow> False | Element name cls attrs kids \<Rightarrow> name \<in> set names)"

definition attr :: "string \<Rightarrow> node \<Rightarrow> string option" where
  "attr key n = (case n of Text s \<Rightarrow> None | Element name cls attrs kids \<Rightarrow> map_of attrs key)"

subsection \<open>One card\<close>

text \<open>The filter of line 172: \<open>x and ('title' in x.lower() or ...)\<close>.\<close>

definition title_class :: "string \<Rightarrow> bool" where
  "title_class x =
     (x \<noteq> [] \<and> (contains ''title'' (lower x) \<or> contains ''heading'' (lower x)
                \<or> contains ''name'' (lower x)))"

definition is_heading :: "node \<Rightarrow> bool" where
  "is_heading n = has_name [''h2'', ''h3'', ''h4''] n"

definition is_title_heading :: "node \<Rightarrow> bool" where
  "is_title_heading n = (is_heading n \<and> class_matches title_class n)"

text \<open>The filter of line 180, which only strings are tested against.\<close>

definition looks_like_title :: "node \<Rightarrow> bool" where
  "looks_like_title n =
     (case n of
        Text x \<Rightarrow> x \<noteq> [] \<and> 10 < length (strip x) \<and> length (strip x) < 100
      | Element name cls attrs kids \<Rightarrow> False)"

text \<open>Lines 172-180: the three methods, in order.\<close>

definition find_title_tag :: "node \<Rightarrow> node option" where
  "find_title_tag crd =
     (case find_node is_title_heading crd of
        Some t \<Rightarrow> Some t
      | None \<Rightarrow>
          (case find_node is_heading crd of
             Some t \<Rightarrow> Some t
           | None \<Rightarrow> find_node looks_like_title crd))"

text \<open>The walk through the parents of lines 189-192 and 208-211.\<close>

fun find_upward :: "(node \<Rightarrow> bool) \<Rightarrow> node list \<Rightarrow> node option" where
  "find_upward p [] = None"
| "find_upward p (parent # rest) =
     (case find_node p parent of Some x \<Rightarrow> Some x | None \<Rightarrow> find_upward p rest)"

definition find_here_or_upward :: "(node \<Rightarrow> bool) \<Rightarrow> node list \<Rightarrow> node \<Rightarrow> node option" where
  "find_here_or_upward p anc crd =
     (case find_node p crd of Some x \<Rightarrow> Some x | None \<Rightarrow> find_upward p anc)"

definition is_link :: "node \<Rightarrow> bool" where
  "is_link n = (has_name [''a''] n \<and> attr ''href'' n \<noteq> None)"

definition is_img :: "node \<Rightarrow> bool" where
  "is_img n = has_name [''img''] n"

text \<open>Lines 195-202: the base URLs of three platforms are prefixed to a relative link.\<close>

definition resolve_link :: "string \<Rightarrow> string \<Rightarrow> string" where
  "resolve_link plat href =
     (if \<not> startswith href ''http'' then
        (if plat = ''Coursera'' then ''https://www.coursera.org'' @ href
         else if plat = ''Udemy'' then ''https://www.udemy.com'' @ href
         else if plat = ''Analytics Vidhya'' then ''https://courses.analyticsvidhya.com'' @ href
         else href)
      else href)"

definition image_of :: "node option \<Rightarrow> string" where
  "image_of img =
     (case img of
        None \<Rightarrow> []
      | Some i \<Rightarrow> (case attr ''src'' i of None \<Rightarrow> [] | Some src \<Rightarrow> src))"

text \<open>Lines 169-220: \<open>course_info\<close> for one card, None when it stays None.\<close>

definition course_info :: "string \<Rightarrow> node list \<Rightarrow> node \<Rightarrow> course option" where
  "course_info plat anc crd =
     (case find_title_tag crd of
        None \<Rightarrow> None
      | Some title_tag \<Rightarrow>
          (case find_here_or_upward is_link anc crd of
             None \<Rightarrow> None
           | Some link \<Rightarrow>
               Some \<lparr>title = strip (get_text title_tag),
                     image_url = image_of (find_here_or_upward is_img anc crd),
                     course_link = resolve_link plat (case attr ''href'' link of None \<Rightarrow> [] | Some h \<Rightarrow> h),
                     platform = plat\<rparr>))"

text \<open>Lines 167-223: the loop over the cards; a record needs a title and a link.\<close>

fun cards_loop :: "string \<Rightarrow> (node \<times> node list) list \<Rightarrow> course list \<Rightarrow> course list" where
  "cards_loop plat [] courses = courses"
| "cards_loop plat ((crd, anc) # rest) courses =
     (case course_info plat anc crd of
        None \<Rightarrow> cards_loop plat rest courses
      | Some info \<Rightarrow>
          (if title info \<noteq> [] \<and> course_link info \<noteq> []
           then cards_loop plat rest (courses @ [info])
           else cards_loop plat rest courses))"

subsection \<open>The selectors\<close>

record selector =
  tag :: string
  classes :: "string list"

text \<open>The filter of line 161: \<open>x and any(c in x.lower() for c in selector['classes'])\<close>.\<close>

definition card_class :: "string list \<Rightarrow> string \<Rightarrow> bool" where
  "card_class cs x = (x \<noteq> [] \<and> list_ex (\<lambda>c. contains c (lower x)) cs)"

definition find_cards :: "selector \<Rightarrow> node \<Rightarrow> (node \<times> node list) list" where
  "find_cards sel soup =
     (if filter (\<lambda>(n, anc). has_name [tag sel] n \<and> class_matches (card_class (classes sel)) n)
           (descendants_ctx [] soup) = []
      then filter (\<lambda>(n, anc). has_name [tag sel] n) (descendants_ctx [] soup)
      else filter (\<lambda>(n, anc). has_name [tag sel] n \<and> class_matches (card_class (classes sel)) n)
             (descendants_ctx [] soup))"

text \<open>Lines 158-230: the selectors are tried in order until one yields a course.\<close>

fun selectors_loop :: "node \<Rightarrow> string \<Rightarrow> selector list \<Rightarrow> course list" where
  "selectors_loop soup plat [] = []"
| "selectors_loop soup plat (sel # rest) =
     (if cards_loop plat (find_cards sel soup) [] \<noteq> []
      then cards_loop plat (find_cards sel soup) []
      else selectors_loop soup plat rest)"

text \<open>
  \<open>scrape_platform\<close> on the page the browser delivers: None when the driver cannot be
  set up or the URL cannot be loaded, otherwise the parsed \<open>driver.page_source\<close>.
\<close>

definition scrape_platform :: "node option \<Rightarrow> string \<Rightarrow> selector list \<Rightarrow> course list" where
  "scrape_platform page plat card_selectors =
     (case page of None \<Rightarrow> [] | Some soup \<Rightarrow> selectors_loop soup plat card_selectors)"

definition edx_selectors :: "selector list" where
  "edx_selectors =
     [\<lparr>tag = ''div'', classes = [''course-card'', ''course-item'', ''course'', ''discovery-card'']\<rparr>,
      \<lparr>tag = ''article'', classes = [''course-card'', ''course-item'', ''course'']\<rparr>,
      \<lparr>tag = ''div'', classes = [''discovery-card'']\<rparr>]"

definition scrape_edx :: "node option \<Rightarrow> course list" where
  "scrape_edx page = scrape_platform page ''edX'' edx_selectors"

section \<open>Derived notions and sample inputs\<close>

text \<open>
  In the words of the specification: a heading element (h2, h3 or h4) whose class
  attribute contains a title-, heading- or name-like keyword, in any letter case. The
  class attribute contains a keyword when one of its tokens does.
\<close>

definition keyword_heading :: "node \<Rightarrow> bool" where
  "keyword_heading n =
     (case n of
        Text s \<Rightarrow> False
      | Element name cls attrs kids \<Rightarrow>
          (name = ''h2'' \<or> name = ''h3'' \<or> name = ''h4'') \<and>
          (case cls of
             None \<Rightarrow> False
           | Some toks \<Rightarrow>
               list_ex (\<lambda>tok. contains ''title'' (lower tok) \<or> contains ''heading'' (lower tok)
                                \<or> contains ''name'' (lower tok)) toks))"

text \<open>Two of the orders in which torch may return equal values.\<close>

definition lower_index_first :: torch_order where
  "lower_index_first xs k = take k (sort_key (\<lambda>i. - (xs ! i)) [0..<length xs])"

definition higher_index_first :: torch_order where
  "higher_index_first xs k = take k (rev (sort_key (\<lambda>i. xs ! i) [0..<length xs]))"

text \<open>
  What a rebuild merges: the rows of the scrapers that answered, in the order of
  \<open>platform_scrapers\<close>, without duplicates.
\<close>

definition merged_courses :: "world \<Rightarrow> course list" where
  "merged_courses w =
     remove_duplicates
       (concat (map (\<lambda>s. case scraper_outcome w s of Inl e \<Rightarrow> [] | Inr cs \<Rightarrow> cs)
                  platform_scrapers))"

text \<open>The scenario of the specification: two rows with one title.\<close>

definition two_python :: "course list" where
  "two_python =
     [\<lparr>title = ''Intro to Python'', image_url = [], course_link = ''http://a/1'', platform = ''X''\<rparr>,
      \<lparr>title = ''Intro to Python'', image_url = [], course_link = ''http://b/2'', platform = ''Y''\<rparr>]"

definition three_rows :: "course list" where
  "three_rows =
     [\<lparr>title = ''Intro to Python'', image_url = [], course_link = ''http://a/1'', platform = ''X''\<rparr>,
      \<lparr>title = ''SQL Basics'', image_url = [], course_link = ''http://a/2'', platform = ''X''\<rparr>,
      \<lparr>title = ''Intro to Python'', image_url = [], course_link = ''http://b/2'', platform = ''Y''\<rparr>]"

text \<open>A stand-in for the embedding model: similarity 1 when the title contains the query.\<close>

definition keyword_model :: embedder where
  "keyword_model query t = (if contains (lower query) (lower t) then 1 else 0)"

definition sample_titles :: "string list" where
  "sample_titles =
     [''Intro to Python'', ''SQL Basics'', ''Python for Data'', ''Statistics'', ''Linear Algebra'',
      ''Deep Learning'', ''Web Design'', ''Algorithms'', ''Databases'', ''Networks'',
      ''Compilers'', ''Graphics'', ''Security'', ''Robotics'', ''Logic'']"

text \<open>Thirty rows: every title once on platform X and once on platform Y.\<close>

definition sample_corpus :: "course list" where
  "sample_corpus =
     concat (map (\<lambda>t. [\<lparr>title = t, image_url = [], course_link = ''http://a/'' @ t, platform = ''X''\<rparr>,
                         \<lparr>title = t, image_url = [], course_link = ''http://b/'' @ t, platform = ''Y''\<rparr>])
                 sample_titles)"

text \<open>A world in which one scraper raises, one finds a row and the others find nothing.\<close>

definition sample_world :: "py_error option \<Rightarrow> world" where
  "sample_world fault =
     \<lparr>scraper_outcome =
        (\<lambda>s. if s = ''scrape_udemy'' then Inl WebDriverException
              else if s = ''scrape_edx'' then Inr (take 1 three_rows)
              else Inr []),
      frame_fault = fault\<rparr>"

definition sample_cache :: cache where
  "sample_cache = \<lparr>cached_courses = Some two_python, last_cache_time = 1000\<rparr>"

definition empty_cache :: cache where
  "empty_cache = \<lparr>cached_courses = None, last_cache_time = 0\<rparr>"

text \<open>
  A card of an edX listing: a heading without class, a heading whose class names a
  title, and a relative link whose text is long enough for the third method.
\<close>

definition title_h3 :: node where
  "title_h3 = Element ''h3'' (Some [''card-Title'']) [] [Text ''  CS50 Intro  '']"

definition edx_card :: node where
  "edx_card =
     Element ''div'' (Some [''discovery-card'']) []
       [Element ''h3'' None [] [Text ''Featured''],
        title_h3,
        Element ''a'' None [(''href'', ''/course/cs50'')] [Text ''A long enough line of text'']]"

definition edx_page :: node where
  "edx_page = Element ''[document]'' None [] [Element ''body'' None [] [edx_card]]"

text \<open>
  A card with four candidates for the title, in document order: a heading whose class
  names no keyword, a heading without class, a free text of suitable length, and a
  heading whose class names a keyword (its text wrapped in no-break spaces).
\<close>

definition name_h4 :: node where
  "name_h4 =
     Element ''h4'' (Some [''big'', ''Course-NAME'']) []
       [Text ([CHR 0xA0] @ '' Data Science '' @ [CHR 0xA0, CHR 0x0A])]"

definition badge_card :: node where
  "badge_card =
     Element ''li'' (Some [''course-card'']) []
       [Element ''h3'' (Some [''badge'']) [] [Text ''New''],
        Element ''h2'' None [] [Text ''Bestseller''],
        Element ''div'' None []
          [Element ''p'' None [] [Text ''Learn data science in ten weeks''], name_h4],
        Element ''a'' None [(''href'', ''https://www.coursera.org/learn/ds'')] []]"

text \<open>
  A page that grows on each of the first eleven scrolls and then stays, and a page that
  grows on every scroll.
\<close>

definition growing_page :: "nat \<Rightarrow> int option" where
  "growing_page n = Some (int (min n 11))"

definition endless_page :: "nat \<Rightarrow> int option" where
  "endless_page n = Some (int n)"

section \<open>Properties of the aggregation\<close>

subsection \<open>The deduplication loop\<close>











subsection \<open>The cache\<close>

lemma run_scrapers_invoked: "snd (run_scrapers out ss acc ivk) = ivk @ ss"
  by (induction ss arbitrary: acc ivk) (auto split: sum.splits)

lemma run_scrapers_courses:
  "fst (run_scrapers out ss acc ivk) =
     acc @ concat (map (\<lambda>s. case out s of Inl e \<Rightarrow> [] | Inr cs \<Rightarrow> cs) ss)"
  by (induction ss arbitrary: acc ivk) (auto split: sum.splits)

lemma run_scrapers_eq:
  "run_scrapers out ss [] [] =
     (concat (map (\<lambda>s. case out s of Inl e \<Rightarrow> [] | Inr cs \<Rightarrow> cs) ss), ss)"
  using run_scrapers_invoked [of out ss "[]" "[]"] run_scrapers_courses [of out ss "[]" "[]"]
  by (simp add: prod_eq_iff)

lemma rebuild_eq:
  "rebuild w t st =
     (case frame_fault w of
        None \<Rightarrow>
          (merged_courses w,
           \<lparr>cached_courses = Some (merged_courses w), last_cache_time = t\<rparr>, platform_scrapers)
      | Some e \<Rightarrow>
          (case cached_courses st of Some old \<Rightarrow> old | None \<Rightarrow> [], st, platform_scrapers))"
  by (simp add: rebuild_def run_scrapers_eq pd_DataFrame_def merged_courses_def
      split: option.splits)

lemma merged_sample_world: "merged_courses (sample_world fault) = take 1 three_rows"
  by (simp add: merged_courses_def sample_world_def platform_scrapers_def three_rows_def
      remove_duplicates_def)

text \<open>
  Claim C3. When a cached corpus exists and its age is below 3600 seconds,
  \<open>get_all_courses\<close> returns that corpus, invokes no scraper and leaves the cache entry
  as it was. When there is no cached corpus or its age is at least 3600 seconds, the
  rebuild runs: all eight scrapers are invoked, and when the frame is built the cache
  entry becomes the deduplicated merge with the current time.
\<close>

theorem get_all_courses_ttl:
  "(cached_courses st = Some df \<and> t - last_cache_time st < 3600 \<longrightarrow>
      get_all_courses w t st = (df, st, [])) \<and>
   (cached_courses st = None \<or> 3600 \<le> t - last_cache_time st \<longrightarrow>
      get_all_courses w t st = rebuild w t st \<and>
      snd (snd (get_all_courses w t st)) = platform_scrapers \<and>
      (frame_fault w = None \<longrightarrow>
         get_all_courses w t st =
           (merged_courses w,
            \<lparr>cached_courses = Some (merged_courses w), last_cache_time = t\<rparr>,
            platform_scrapers)))"
  by (auto simp: get_all_courses_def CACHE_DURATION_def rebuild_eq split: option.splits)

theorem get_all_courses_ttl_witness:
  "get_all_courses (sample_world None) 4599 sample_cache = (two_python, sample_cache, []) \<and>
   get_all_courses (sample_world None) 4600 sample_cache =
     (take 1 three_rows,
      \<lparr>cached_courses = Some (take 1 three_rows), last_cache_time = 4600\<rparr>, platform_scrapers) \<and>
   get_all_courses (sample_world None) 5 empty_cache =
     (take 1 three_rows,
      \<lparr>cached_courses = Some (take 1 three_rows), last_cache_time = 5\<rparr>, platform_scrapers)"
proof -
  have fresh: "cached_courses sample_cache = Some two_python \<and>
      (4599::real) - last_cache_time sample_cache < 3600"
    by (simp add: sample_cache_def)
  have stale: "cached_courses sample_cache = None \<or>
      3600 \<le> (4600::real) - last_cache_time sample_cache"
    by (simp add: sample_cache_def)
  have absent: "cached_courses empty_cache = None \<or> 3600 \<le> (5::real) - last_cache_time empty_cache"
    by (simp add: empty_cache_def)
  have nofault: "frame_fault (sample_world None) = None"
    by (simp add: sample_world_def)
  have a: "get_all_courses (sample_world None) 4599 sample_cache = (two_python, sample_cache, [])"
    using fresh get_all_courses_ttl [of sample_cache two_python 4599 "sample_world None"]
    by blast
  have b: "get_all_courses (sample_world None) 4600 sample_cache =
      (merged_courses (sample_world None),
       \<lparr>cached_courses = Some (merged_courses (sample_world None)), last_cache_time = 4600\<rparr>,
       platform_scrapers)"
    using stale nofault get_all_courses_ttl [of sample_cache two_python 4600 "sample_world None"]
    by blast
  have c: "get_all_courses (sample_world None) 5 empty_cache =
      (merged_courses (sample_world None),
       \<lparr>cached_courses = Some (merged_courses (sample_world None)), last_cache_time = 5\<rparr>,
       platform_scrapers)"
    using absent nofault get_all_courses_ttl [of empty_cache two_python 5 "sample_world None"]
    by blast
  show ?thesis
    using a b c by (simp only: merged_sample_world simp_thms)
qed

text \<open>
  Claim C4. When the rebuild runs and the merge step raises (the construction of the
  frame fails), \<open>get_all_courses\<close> returns the prior corpus if there is one and the
  empty corpus otherwise, and the cache entry is the one from before the call.
\<close>

theorem get_all_courses_stale_on_failure:
  "frame_fault w = Some e \<Longrightarrow> cached_courses st = None \<or> 3600 \<le> t - last_cache_time st \<Longrightarrow>
   get_all_courses w t st =
     (case cached_courses st of Some old \<Rightarrow> old | None \<Rightarrow> [], st, platform_scrapers)"
  by (auto simp: get_all_courses_def CACHE_DURATION_def rebuild_eq split: option.splits)

theorem get_all_courses_stale_on_failure_witness:
  "get_all_courses (sample_world (Some OtherError)) 4600 sample_cache =
     (two_python, sample_cache, platform_scrapers) \<and>
   get_all_courses (sample_world (Some OtherError)) 5 empty_cache =
     ([], empty_cache, platform_scrapers)"
proof -
  have fault: "frame_fault (sample_world (Some OtherError)) = Some OtherError"
    by (simp add: sample_world_def)
  have stale: "cached_courses sample_cache = None \<or>
      3600 \<le> (4600::real) - last_cache_time sample_cache"
    by (simp add: sample_cache_def)
  have absent: "cached_courses empty_cache = None \<or> 3600 \<le> (5::real) - last_cache_time empty_cache"
    by (simp add: empty_cache_def)
  have c1: "cached_courses sample_cache = Some two_python"
    by (simp add: sample_cache_def)
  have c2: "cached_courses empty_cache = None"
    by (simp add: empty_cache_def)
  show ?thesis
    using get_all_courses_stale_on_failure [OF fault stale]
      get_all_courses_stale_on_failure [OF fault absent] c1 c2
    by simp
qed

section \<open>Properties of the search\<close>

lemma title_make_result: "title (make_result c s) = title c"
  by (simp add: make_result_def)

text \<open>
  The invariant of the loop of lines 407-423: the titles of \<open>results\<close> are distinct and
  all in \<open>seen_courses\<close>, and fewer than eight results have been collected.
\<close>

lemma collect_results_inv:
  "distinct (map title results) \<Longrightarrow> title ` set results \<subseteq> seen \<Longrightarrow> length results < 8 \<Longrightarrow>
   length (collect_results df sims idxs results seen) \<le> 8 \<and>
   distinct (map title (collect_results df sims idxs results seen))"
proof (induction df sims idxs results seen rule: collect_results.induct)
  case (1 df sims results seen)
  then show ?case by simp
next
  case (2 df sims idx rest results seen)
  let ?r = "make_result (df ! idx) (sims ! idx)"
  show ?case
  proof (cases "length df \<le> idx")
    case True
    then show ?thesis using 2 by simp
  next
    case inside: False
    show ?thesis
    proof (cases "title (df ! idx) \<in> seen")
      case True
      then show ?thesis using 2 inside by simp
    next
      case fresh: False
      have d: "distinct (map title (results @ [?r]))"
        using "2.prems" fresh by (auto simp: title_make_result)
      have s: "title ` set (results @ [?r]) \<subseteq> insert (title (df ! idx)) seen"
        using "2.prems" by (auto simp: title_make_result)
      show ?thesis
      proof (cases "8 \<le> length (results @ [?r])")
        case True
        then show ?thesis using d "2.prems" inside fresh by simp
      next
        case False
        then have "length (results @ [?r]) < 8" by simp
        then show ?thesis
          using "2.IH"(2) [OF inside fresh False d s] inside fresh False by simp
      qed
    qed
  qed
qed

lemma sorted_by_score_desc_length: "length (sorted_by_score_desc rs) = length rs"
  by (simp add: sorted_by_score_desc_def)

lemma sorted_by_score_desc_distinct:
  "distinct (map title (sorted_by_score_desc rs)) = distinct (map title rs)"
  by (simp add: sorted_by_score_desc_def distinct_map)

lemma search_try_cap:
  "search_try pick model q df = (Inr rs, n) \<Longrightarrow> length rs \<le> 8 \<and> distinct (map title rs)"
  using collect_results_inv [of "[]" "{}"]
  by (auto simp: search_try_def sorted_by_score_desc_length sorted_by_score_desc_distinct
      split: if_splits option.splits sum.splits)

lemma topk_short: "length xs < k \<Longrightarrow> topk pick xs k = Inl RuntimeError"
  by (simp add: topk_def)

text \<open>
  On the sample corpus all rows but four have similarity 0, so the rows returned depend
  on the order in which torch returns equal values; the number of results does not.
\<close>

lemma search_sample_corpus_lower:
  "map title (search_courses lower_index_first (Some keyword_model) ''python'' sample_corpus) =
     [''Intro to Python'', ''Python for Data'', ''SQL Basics'', ''Statistics'',
      ''Linear Algebra'', ''Deep Learning'', ''Web Design'', ''Algorithms'']"
  by code_simp

lemma search_sample_corpus_higher:
  "map title (search_courses higher_index_first (Some keyword_model) ''python'' sample_corpus) =
     [''Python for Data'', ''Intro to Python'', ''Logic'', ''Robotics'',
      ''Security'', ''Graphics'', ''Compilers'', ''Networks'']"
  by code_simp

text \<open>
  Claim C1. For every query, every corpus, every state of the embedding model and every
  order in which torch returns the candidates, \<open>search_courses\<close> returns at most eight
  results and no two of them have the same title, whatever titles the corpus repeats.
\<close>

theorem search_courses_cap_dedup:
  "length (search_courses pick model q df) \<le> 8 \<and>
   distinct (map title (search_courses pick model q df))"
proof (cases "search_try pick model q df")
  case (Pair r n)
  show ?thesis
  proof (cases r)
    case (Inl e)
    then show ?thesis using Pair by (simp add: search_courses_def search_courses_run_def)
  next
    case (Inr rs)
    then show ?thesis using Pair search_try_cap [of pick model q df rs n]
      by (simp add: search_courses_def search_courses_run_def)
  qed
qed

theorem search_courses_cap_dedup_witness:
  "length (search_courses lower_index_first (Some keyword_model) ''python'' sample_corpus) = 8 \<and>
   length (search_courses lower_index_first (Some keyword_model) ''python'' sample_corpus) \<le> 8 \<and>
   distinct
     (map title (search_courses lower_index_first (Some keyword_model) ''python'' sample_corpus))"
proof -
  have "length (map title
      (search_courses lower_index_first (Some keyword_model) ''python'' sample_corpus)) = 8"
    by (simp only: search_sample_corpus_lower) simp
  then have full:
    "length (search_courses lower_index_first (Some keyword_model) ''python'' sample_corpus) = 8"
    by (simp only: length_map)
  show ?thesis
    by (rule conjI [OF full search_courses_cap_dedup])
qed

text \<open>
  Claim C5, at the scenario of the specification. On the corpus of two rows titled
  "Intro to Python" and the query "python", with any embedding model and any order of
  torch, \<open>topk(k=30)\<close> raises and \<open>search_courses\<close> returns no result, where the
  claim expects one.
\<close>

theorem search_courses_two_python:
  "search_courses pick (Some m) ''python'' two_python = [] \<and>
   fst (search_try pick (Some m) ''python'' two_python) = Inl RuntimeError"
  by (simp add: search_courses_def search_courses_run_def search_try_def topk_def two_python_def)

text \<open>
  Claim C6. For every non-empty corpus of fewer than thirty rows, every query and every
  embedding model, the request for the thirty best candidates raises a RuntimeError in
  the try block and \<open>search_courses\<close> returns the empty list.
\<close>

theorem search_courses_small_corpus:
  "df \<noteq> [] \<Longrightarrow> length df < 30 \<Longrightarrow>
   search_courses pick (Some m) q df = [] \<and>
   fst (search_try pick (Some m) q df) = Inl RuntimeError"
  by (simp add: search_courses_def search_courses_run_def search_try_def topk_short)

theorem search_courses_small_corpus_witness:
  "search_courses lower_index_first (Some keyword_model) ''sql'' three_rows = [] \<and>
   fst (search_try lower_index_first (Some keyword_model) ''sql'' three_rows) = Inl RuntimeError"
proof -
  have ne: "three_rows \<noteq> []" by (simp add: three_rows_def)
  have short: "length three_rows < 30" by (simp add: three_rows_def)
  show ?thesis by (rule search_courses_small_corpus [OF ne short])
qed

text \<open>
  Claim C7. On the empty corpus \<open>search_courses\<close> returns the empty list and calls
  \<open>model.encode\<close> not once, whatever the model; with the model uninitialised it returns
  the empty list, again without a call. The function always returns a list: no
  exception passes it.
\<close>

theorem search_courses_empty_or_no_model:
  "search_courses pick model q [] = [] \<and> encode_calls pick model q [] = 0 \<and>
   search_courses pick None q df = [] \<and> encode_calls pick None q df = 0"
  by (simp add: search_courses_def encode_calls_def search_courses_run_def search_try_def)

theorem search_courses_empty_or_no_model_witness:
  "search_courses lower_index_first (Some keyword_model) ''anything'' [] = [] \<and>
   encode_calls lower_index_first (Some keyword_model) ''anything'' [] = 0 \<and>
   search_courses lower_index_first None ''anything'' sample_corpus = [] \<and>
   encode_calls lower_index_first None ''anything'' sample_corpus = 0"
  by (rule search_courses_empty_or_no_model)

lemma encode_calls_with_model:
  "df \<noteq> [] \<Longrightarrow> encode_calls pick (Some m) q df = 2"
  by (simp add: encode_calls_def search_courses_run_def search_try_def split: sum.splits)

section \<open>Properties of the card extraction\<close>

subsection \<open>Links\<close>

lemma resolve_link_absolute:
  "plat \<in> {''Coursera'', ''Udemy'', ''Analytics Vidhya''} \<Longrightarrow>
   startswith (resolve_link plat href) ''http''"
  by (auto simp: resolve_link_def startswith_def)

lemma resolve_link_other:
  "plat \<notin> {''Coursera'', ''Udemy'', ''Analytics Vidhya''} \<Longrightarrow> resolve_link plat href = href"
  by (simp add: resolve_link_def)

lemma course_info_link_absolute:
  "plat \<in> {''Coursera'', ''Udemy'', ''Analytics Vidhya''} \<Longrightarrow>
   course_info plat anc crd = Some info \<Longrightarrow> startswith (course_link info) ''http''"
  using resolve_link_absolute [of plat]
  by (auto simp: course_info_def split: option.splits)

text \<open>
  Claim C8, at an edX listing. The claim says that every link of a record is absolute,
  a relative \<open>href\<close> being prefixed with the base URL of its platform. The source has
  base URLs for Coursera, Udemy and Analytics Vidhya only: on the edX page below, whose
  card links to \<open>/course/cs50\<close>, \<open>scrape_edx\<close> yields a record whose link is that relative
  path.
\<close>

theorem scrape_edx_relative_link:
  "scrape_edx (Some edx_page) =
     [\<lparr>title = ''CS50 Intro'', image_url = [], course_link = ''/course/cs50'', platform = ''edX''\<rparr>] \<and>
   \<not> startswith ''/course/cs50'' ''http''"
  by code_simp

subsection \<open>Titles\<close>

lemma find_node_first:
  "h \<in> set (descendants crd) \<Longrightarrow> p h \<Longrightarrow>
   \<exists>t. find_node p crd = Some t \<and> p t \<and> t \<in> set (descendants crd) \<and>
       (\<exists>i < length (descendants crd). t = descendants crd ! i \<and>
          \<not> list_ex p (take i (descendants crd)))"
proof -
  assume h: "h \<in> set (descendants crd)" "p h"
  then have "find p (descendants crd) \<noteq> None"
    by (auto simp: find_None_iff)
  then obtain t where t: "find p (descendants crd) = Some t" by blast
  then obtain i where i: "i < length (descendants crd)" "p (descendants crd ! i)"
      "t = descendants crd ! i" "\<forall>j<i. \<not> p (descendants crd ! j)"
    unfolding find_Some_iff by blast
  have "\<not> list_ex p (take i (descendants crd))"
    using i(1,4) by (auto simp: list_ex_iff in_set_conv_nth)
  then show ?thesis using t i by (auto simp: find_node_def)
qed

lemma prefix_before_sep: "prefix kw (a @ sp # b) \<Longrightarrow> sp \<notin> set kw \<Longrightarrow> prefix kw a"
  by (auto simp: prefix_append prefix_Cons)

lemma prefix_contains: "prefix kw a \<Longrightarrow> contains kw a"
  by (cases a) auto

lemma contains_Cons: "contains kw a \<Longrightarrow> contains kw (c # a)"
  by simp

text \<open>A keyword without a space that occurs in a space-joined string occurs in one part.\<close>

lemma contains_append_sep:
  "contains kw (a @ sp # b) \<Longrightarrow> sp \<notin> set kw \<Longrightarrow> contains kw a \<or> contains kw b"
proof (induction a)
  case Nil
  from Nil.prems(1) have "prefix kw (sp # b) \<or> contains kw b"
    by simp
  then show ?case
  proof
    assume "prefix kw (sp # b)"
    then have "prefix kw ([] @ sp # b)" by simp
    then have "prefix kw []" using Nil.prems(2) by (rule prefix_before_sep)
    then have "kw = []" by simp
    then show ?thesis by simp
  next
    assume "contains kw b"
    then show ?thesis by simp
  qed
next
  case (Cons c a)
  from Cons.prems(1) have "prefix kw ((c # a) @ sp # b) \<or> contains kw (a @ sp # b)"
    by simp
  then show ?case
  proof
    assume "prefix kw ((c # a) @ sp # b)"
    then have "prefix kw (c # a)" using Cons.prems(2) by (rule prefix_before_sep)
    then have "contains kw (c # a)" by (rule prefix_contains)
    then show ?thesis by simp
  next
    assume "contains kw (a @ sp # b)"
    then have "contains kw a \<or> contains kw b" using Cons.prems(2) by (rule Cons.IH)
    then show ?thesis
    proof
      assume "contains kw a"
      then have "contains kw (c # a)" by (rule contains_Cons)
      then show ?thesis by simp
    next
      assume "contains kw b"
      then show ?thesis by simp
    qed
  qed
qed

lemma lower_space: "lower_char (CHR '' '') = CHR '' ''"
  by code_simp

lemma lower_join:
  "lower (x @ CHR '' '' # r) = lower x @ CHR '' '' # lower r"
  by (simp add: lower_def lower_space)

lemma contains_join:
  "contains kw (lower (join_space toks)) \<Longrightarrow> CHR '' '' \<notin> set kw \<Longrightarrow> kw \<noteq> [] \<Longrightarrow>
   list_ex (\<lambda>tok. contains kw (lower tok)) toks"
proof (induction toks rule: join_space.induct)
  case 1
  then show ?case by (simp add: lower_def)
next
  case (2 x)
  then show ?case by simp
next
  case (3 x y ys)
  have "contains kw (lower x @ CHR '' '' # lower (join_space (y # ys)))"
    using "3.prems"(1) by (simp add: lower_join)
  then have "contains kw (lower x) \<or> contains kw (lower (join_space (y # ys)))"
    using contains_append_sep "3.prems"(2) by blast
  then show ?case using "3.IH" "3.prems"(2,3) by auto
qed

lemma contains_lower_nonempty: "contains kw (lower x) \<Longrightarrow> kw \<noteq> [] \<Longrightarrow> x \<noteq> []"
  by (cases x) (auto simp: lower_def)

lemma title_class_iff:
  "title_class x =
     (contains ''title'' (lower x) \<or> contains ''heading'' (lower x) \<or> contains ''name'' (lower x))"
  using contains_lower_nonempty [of "''title''" x] contains_lower_nonempty [of "''heading''" x]
    contains_lower_nonempty [of "''name''" x]
  by (auto simp: title_class_def)

lemma title_class_join:
  "title_class (join_space toks) \<Longrightarrow> list_ex title_class toks"
proof -
  assume "title_class (join_space toks)"
  then consider "contains ''title'' (lower (join_space toks))"
    | "contains ''heading'' (lower (join_space toks))"
    | "contains ''name'' (lower (join_space toks))"
    by (auto simp: title_class_iff)
  then show ?thesis
  proof cases
    case 1
    then have "list_ex (\<lambda>tok. contains ''title'' (lower tok)) toks"
      by (rule contains_join) simp_all
    then show ?thesis by (auto simp: list_ex_iff title_class_iff)
  next
    case 2
    then have "list_ex (\<lambda>tok. contains ''heading'' (lower tok)) toks"
      by (rule contains_join) simp_all
    then show ?thesis by (auto simp: list_ex_iff title_class_iff)
  next
    case 3
    then have "list_ex (\<lambda>tok. contains ''name'' (lower tok)) toks"
      by (rule contains_join) simp_all
    then show ?thesis by (auto simp: list_ex_iff title_class_iff)
  qed
qed

text \<open>
  The filter of line 172 accepts exactly the headings of the claim: an h2, h3 or h4 one
  of whose class tokens contains "title", "heading" or "name" in any letter case.
\<close>

lemma is_title_heading_iff: "is_title_heading n = keyword_heading n"
proof (cases n)
  case (Text s)
  then show ?thesis
    by (simp add: is_title_heading_def is_heading_def has_name_def keyword_heading_def)
next
  case (Element name cls attrs kids)
  show ?thesis
  proof (cases cls)
    case None
    then show ?thesis using Element
      by (simp add: is_title_heading_def class_matches_def keyword_heading_def)
  next
    case (Some toks)
    have a: "(list_ex title_class toks \<or> title_class (join_space toks)) = list_ex title_class toks"
      using title_class_join by blast
    have b: "list_ex title_class toks =
        list_ex (\<lambda>tok. contains ''title'' (lower tok) \<or> contains ''heading'' (lower tok)
                       \<or> contains ''name'' (lower tok)) toks"
      by (auto simp: list_ex_iff title_class_iff)
    have c: "is_title_heading n =
        ((name = ''h2'' \<or> name = ''h3'' \<or> name = ''h4'') \<and>
         (list_ex title_class toks \<or> title_class (join_space toks)))"
      using Element Some
      by (simp add: is_title_heading_def is_heading_def has_name_def class_matches_def)
    have d: "keyword_heading n =
        ((name = ''h2'' \<or> name = ''h3'' \<or> name = ''h4'') \<and>
         list_ex (\<lambda>tok. contains ''title'' (lower tok) \<or> contains ''heading'' (lower tok)
                       \<or> contains ''name'' (lower tok)) toks)"
      using Element Some by (simp add: keyword_heading_def)
    have e: "(list_ex title_class toks \<or> title_class (join_space toks)) =
        list_ex (\<lambda>tok. contains ''title'' (lower tok) \<or> contains ''heading'' (lower tok)
                       \<or> contains ''name'' (lower tok)) toks"
      using a b by simp
    show ?thesis by (simp only: c d e)
  qed
qed

lemma keyword_heading_Element:
  "keyword_heading (Element name (Some toks) attrs kids) =
     ((name = ''h2'' \<or> name = ''h3'' \<or> name = ''h4'') \<and>
      (\<exists>tok \<in> set toks. contains ''title'' (lower tok) \<or> contains ''heading'' (lower tok)
          \<or> contains ''name'' (lower tok)))"
  by (simp add: keyword_heading_def list_ex_iff)

lemma keyword_heading_cases:
  assumes "keyword_heading t"
  shows "\<exists>name toks attrs kids tok.
           t = Element name (Some toks) attrs kids \<and>
           (name = ''h2'' \<or> name = ''h3'' \<or> name = ''h4'') \<and> tok \<in> set toks \<and>
           (contains ''title'' (lower tok) \<or> contains ''heading'' (lower tok)
              \<or> contains ''name'' (lower tok))"
proof (cases t)
  case (Text s)
  then show ?thesis using assms by (simp add: keyword_heading_def)
next
  case (Element name cls attrs kids)
  show ?thesis
  proof (cases cls)
    case None
    then show ?thesis using assms Element by (simp add: keyword_heading_def)
  next
    case (Some toks)
    then have "keyword_heading (Element name (Some toks) attrs kids)"
      using assms Element by simp
    then show ?thesis using Element Some
      unfolding keyword_heading_Element by blast
  qed
qed

text \<open>
  Claim C10. When a card contains a heading (h2, h3 or h4) whose class attribute
  contains a title-, heading- or name-like keyword, the title tag chosen is such a
  heading, namely the first one of the card in document order, and the title of the
  record made from the card is the stripped text of that heading. So the title is never
  taken from a heading whose class has no keyword, from a heading without class or from
  the free-text method.
\<close>

theorem title_from_class_heading:
  assumes "h \<in> set (descendants crd)" and "keyword_heading h"
  shows "\<exists>t i. find_title_tag crd = Some t \<and>
               i < length (descendants crd) \<and> t = descendants crd ! i \<and>
               keyword_heading t \<and>
               (\<exists>name toks attrs kids tok.
                  t = Element name (Some toks) attrs kids \<and>
                  (name = ''h2'' \<or> name = ''h3'' \<or> name = ''h4'') \<and> tok \<in> set toks \<and>
                  (contains ''title'' (lower tok) \<or> contains ''heading'' (lower tok)
                     \<or> contains ''name'' (lower tok))) \<and>
               \<not> list_ex keyword_heading (take i (descendants crd)) \<and>
               (\<forall>info. course_info plat anc crd = Some info \<longrightarrow>
                  title info = strip (get_text t))"
proof -
  have p: "is_title_heading h" using assms(2) by (simp add: is_title_heading_iff)
  obtain t i where t: "find_node is_title_heading crd = Some t" "is_title_heading t"
      "i < length (descendants crd)" "t = descendants crd ! i"
      "\<not> list_ex is_title_heading (take i (descendants crd))"
    using find_node_first [of h crd is_title_heading] assms(1) p by blast
  have tt: "find_title_tag crd = Some t"
    using t(1) by (simp add: find_title_tag_def)
  have k: "keyword_heading t" using t(2) by (simp add: is_title_heading_iff)
  have first: "\<not> list_ex keyword_heading (take i (descendants crd))"
    using t(5) by (simp add: list_ex_iff is_title_heading_iff)
  have "title info = strip (get_text t)" if "course_info plat anc crd = Some info" for info
    using that tt by (auto simp: course_info_def split: option.splits)
  then show ?thesis using tt t(3,4) k keyword_heading_cases [OF k] first by blast
qed

lemma badge_card_candidates:
  "descendants badge_card ! 7 = name_h4 \<and>
   find_node is_heading badge_card = Some (Element ''h3'' (Some [''badge'']) [] [Text ''New'']) \<and>
   find_node looks_like_title badge_card = Some (Text ''Learn data science in ten weeks'') \<and>
   \<not> keyword_heading (Element ''h3'' (Some [''badge'']) [] [Text ''New'']) \<and>
   \<not> keyword_heading (Element ''h2'' None [] [Text ''Bestseller'']) \<and>
   strip (get_text name_h4) = ''Data Science''"
  by code_simp

lemma badge_card_info:
  "course_info ''Coursera'' [] badge_card =
     Some \<lparr>title = ''Data Science'', image_url = [],
           course_link = ''https://www.coursera.org/learn/ds'', platform = ''Coursera''\<rparr>"
  by code_simp

theorem title_from_class_heading_witness:
  "find_title_tag badge_card = Some name_h4 \<and>
   keyword_heading name_h4 \<and>
   map_option title (course_info ''Coursera'' [] badge_card) = Some (strip (get_text name_h4)) \<and>
   strip (get_text name_h4) = ''Data Science'' \<and>
   find_node is_heading badge_card = Some (Element ''h3'' (Some [''badge'']) [] [Text ''New'']) \<and>
   find_node looks_like_title badge_card = Some (Text ''Learn data science in ten weeks'')"
proof -
  have mem: "name_h4 \<in> set (descendants badge_card)"
    by (simp add: badge_card_def)
  have kh: "keyword_heading name_h4"
    by code_simp
  have uniq: "find_node is_title_heading badge_card = Some name_h4"
    by code_simp
  obtain t where t: "find_title_tag badge_card = Some t"
      "\<forall>info. course_info ''Coursera'' [] badge_card = Some info \<longrightarrow>
         title info = strip (get_text t)"
    using title_from_class_heading [OF mem kh, of "''Coursera''" "[]"] by blast
  have eq: "t = name_h4"
    using t(1) uniq by (simp add: find_title_tag_def)
  obtain info where info: "course_info ''Coursera'' [] badge_card = Some info"
    using badge_card_info by blast
  then have "title info = strip (get_text name_h4)" using t(2) eq by blast
  then show ?thesis using t(1) eq info kh badge_card_candidates by simp
qed

section \<open>Properties of the scrolling\<close>

lemma scroll_to_bottom_still: "scroll_to_bottom (\<lambda>n. Some 700) = Some 3"
  by code_simp

lemma endless_loop:
  "scroll_loop h n l r = Some y \<Longrightarrow> h = endless_page \<and> l = int n \<and> r = 0 \<longrightarrow> False"
proof (rule scroll_loop.raw_induct [where P = "\<lambda>h n l r y. h = endless_page \<and> l = int n \<and> r = 0 \<longrightarrow> False"])
  fix f :: "(nat \<Rightarrow> int option) \<Rightarrow> nat \<Rightarrow> int \<Rightarrow> nat \<Rightarrow> nat option"
    and h :: "nat \<Rightarrow> int option" and n :: nat and l :: int and r :: nat and y :: nat
  assume IH: "\<And>h n l r y. f h n l r = Some y \<Longrightarrow> h = endless_page \<and> l = int n \<and> r = 0 \<longrightarrow> False"
    and step: "(if r < 10 then
        (case h (Suc n) of
           None \<Rightarrow> Some (Suc n)
         | Some new_height \<Rightarrow>
             (if 3 \<le> (if new_height = l then r + 1 else 0)
              then Some (Suc n)
              else f h (Suc n) new_height
                     (if new_height = l then r + 1 else 0)))
      else Some n) = Some y"
  show "h = endless_page \<and> l = int n \<and> r = 0 \<longrightarrow> False"
  proof
    assume a: "h = endless_page \<and> l = int n \<and> r = 0"
    then have "f endless_page (Suc n) (int (Suc n)) 0 = Some y"
      using step by (simp add: endless_page_def)
    then show False using IH by blast
  qed
qed

lemma scroll_to_bottom_endless: "scroll_to_bottom endless_page = None"
proof (cases "scroll_to_bottom endless_page")
  case None
  then show ?thesis .
next
  case (Some y)
  then have "scroll_loop endless_page 0 (int 0) 0 = Some y"
    by (simp add: scroll_to_bottom_def endless_page_def)
  then show ?thesis using endless_loop [of endless_page 0 "int 0" 0 y] by simp
qed

text \<open>
  Claim C9, at a page that grows eleven times. The claim bounds the scrolls of one call
  of \<open>scroll_to_bottom\<close> by ten. The counter compared with \<open>max_scrolls\<close> is the count
  of consecutive scrolls without growth, which is reset by every growth and leaves the
  loop at three: on a page whose height grows on each of the first eleven scrolls the
  function scrolls fourteen times (and on a page that always grows it never returns,
  \<open>scroll_to_bottom_endless\<close>).
\<close>

theorem scroll_to_bottom_fourteen: "scroll_to_bottom growing_page = Some 14"
  by code_simp

end
